theory Spec2Isabelle
  imports Main
begin

section \<open>Values, log messages and observable effects\<close>

text \<open>
  The plugin runs on the single-threaded JavaScript event loop. Every handler runs to
  completion; what it leaves behind for later is a timer or a pending promise. The model
  keeps the object's fields and the part of the event loop that belongs to one shutter
  (live timers, pending hub requests) in one record, and writes everything the code does
  to the outside (log lines, HTTP requests, HomeKit callbacks and characteristic updates,
  timer calls) into a trace of effects, in program order. The trace also records every
  assignment to a field of the object, so that the place of an assignment among the other
  statements of a handler can be stated.

  Positions are JavaScript numbers holding integer percentages; they are modelled as
  \<open>int\<close>. Nothing in the source bounds them.
\<close>

text \<open>The three values of HomeKit's PositionState characteristic.\<close>

datatype PositionState = DECREASING | INCREASING | STOPPED

datatype characteristic = CurrentPosition | TargetPosition | PositionStateCh

datatype hkvalue = Num int | PosState PositionState

datatype level = Debug | Info

text \<open>One constructor for each log line of the source, with the values it interpolates.\<close>

datatype message =
    TriggeredGetCurrentPosition
  | TriggeredGetTargetPosition
  | TriggeredSetTargetPosition int
  | TriggeredGetPositionState
  | StoppingPolling int
  | UpdatingAfterTimeout
  | SendingAuthentication
  | AuthenticatedOK
  | PostingUnitAction int int
  | GotUnitActionResponse int
  | GettingUnitData int
  | GotUnitDataResponse int

type_synonym error = string

datatype effect =
    Log level message
  | HttpGetLogin
  | HttpGetUnit int
  | HttpPostAction int int
  | Callback "hkvalue option"
  | UpdateCharacteristic characteristic hkvalue
  | SetCharacteristic characteristic hkvalue
  | SetInterval nat int
  | ClearInterval nat
  | SetTimeout nat int
  | ClearTimeout nat
  | UnhandledRejection error
  | AssignTargetPosition int
  | AssignCurrentPosition int
  | AssignIntervalDurationSum int
  | AssignUpdateTargetInterval "nat option"
  | AssignUpdateTargetPositionTimeout "nat option"

fun is_Log :: "effect \<Rightarrow> bool" where
  "is_Log (Log l m) = True"
| "is_Log e = False"

fun is_Callback :: "effect \<Rightarrow> bool" where
  "is_Callback (Callback v) = True"
| "is_Callback e = False"

fun is_HubRequest :: "effect \<Rightarrow> bool" where
  "is_HubRequest HttpGetLogin = True"
| "is_HubRequest (HttpGetUnit i) = True"
| "is_HubRequest (HttpPostAction i v) = True"
| "is_HubRequest e = False"

text \<open>How a promise settles.\<close>

datatype 'a outcome = Resolved 'a | Rejected error

text \<open>The part of an HTTP response the code reads: the status and, for
  \<open>units/getUnitByID\<close>, the field \<open>currStatus\<close> of the body.\<close>

record response =
  status :: int
  currStatus :: int

section \<open>The platform's settings (platform.ts)\<close>

record platform =
  pollingInterval :: int
  maxPollingTime :: int

text \<open>
  \<open>config['pollingInterval'] ? parseInt(config['pollingInterval']) * 1000 : 2500\<close> and
  \<open>maxPollingTime = 1000 * 60\<close>. The code tests the raw configuration value for
  truthiness and, when it is truthy, multiplies what \<open>parseInt\<close> makes of it. The argument
  is \<open>None\<close> when the raw value is falsy (absent, the number 0, the empty string) and
  \<open>Some n\<close> when it is truthy and \<open>parseInt\<close> of it is the integer \<open>n\<close> (so the string
  \<open>'0'\<close> is \<open>Some 0\<close> and the number 2.5 is \<open>Some 2\<close>). A truthy value of which
  \<open>parseInt\<close> makes no number is outside the model.
\<close>

definition IFeelPlatform :: "int option \<Rightarrow> platform" where
  "IFeelPlatform cfg =
     \<lparr> pollingInterval = (case cfg of None \<Rightarrow> 2500 | Some n \<Rightarrow> n * 1000),
       maxPollingTime = 1000 * 60 \<rparr>"

section \<open>The shutter object and its share of the event loop\<close>

text \<open>The closures the code hands to \<open>then\<close>, and the suspended body of
  \<open>postShutterAction\<close>; each is what runs when a pending hub request settles.\<close>

datatype continuation =
    Seed
  | CurrentGet_resync
  | TargetGet_resync
  | CurrentGet
  | PositionStateGet
  | PositionStateGet_inline
  | PollTick
  | DeferredCheck
  | PostAction

text \<open>
  The fields of the class \<open>IFeelShutter\<close> (the polling revision has
  \<open>updateTargetInterval\<close> and \<open>intervalDurationSum\<close>, the deferred-check revision has
  \<open>updateTargetPositionTimeout\<close>; a revision leaves the other's fields alone), then the
  event loop: the handles of the live timers, the next fresh handle, and the hub requests
  that have not settled yet, oldest first.
\<close>

record IFeelShutter =
  shutterId :: int
  targetPosition :: int
  currentPosition :: int
  updateTargetInterval :: "nat option"
  intervalDurationSum :: int
  updateTargetPositionTimeout :: "nat option"
  timers :: "nat list"
  nextHandle :: nat
  pending :: "continuation list"
  effects :: "effect list"

definition emit :: "effect list \<Rightarrow> IFeelShutter \<Rightarrow> IFeelShutter" where
  "emit es s = s\<lparr>effects := effects s @ es\<rparr>"

text \<open>An assignment to a field: the field takes the value and the trace records it.\<close>

definition assign_targetPosition :: "int \<Rightarrow> IFeelShutter \<Rightarrow> IFeelShutter" where
  "assign_targetPosition v s = (emit [AssignTargetPosition v] s)\<lparr>targetPosition := v\<rparr>"

definition assign_currentPosition :: "int \<Rightarrow> IFeelShutter \<Rightarrow> IFeelShutter" where
  "assign_currentPosition v s = (emit [AssignCurrentPosition v] s)\<lparr>currentPosition := v\<rparr>"

definition assign_intervalDurationSum :: "int \<Rightarrow> IFeelShutter \<Rightarrow> IFeelShutter" where
  "assign_intervalDurationSum v s =
     (emit [AssignIntervalDurationSum v] s)\<lparr>intervalDurationSum := v\<rparr>"

definition assign_updateTargetInterval :: "nat option \<Rightarrow> IFeelShutter \<Rightarrow> IFeelShutter" where
  "assign_updateTargetInterval h s =
     (emit [AssignUpdateTargetInterval h] s)\<lparr>updateTargetInterval := h\<rparr>"

definition assign_updateTargetPositionTimeout :: "nat option \<Rightarrow> IFeelShutter \<Rightarrow> IFeelShutter" where
  "assign_updateTargetPositionTimeout h s =
     (emit [AssignUpdateTargetPositionTimeout h] s)\<lparr>updateTargetPositionTimeout := h\<rparr>"

section \<open>Motion state\<close>

text \<open>\<open>calculateCurrentPositionState\<close>, the same in both class revisions that have it.\<close>

definition calculateCurrentPositionState :: "IFeelShutter \<Rightarrow> PositionState" where
  "calculateCurrentPositionState s =
     (if currentPosition s > targetPosition s then DECREASING
      else if currentPosition s < targetPosition s then INCREASING
      else STOPPED)"

text \<open>The first revision computes the number in place inside \<open>handlePositionStateGet\<close>:
  0 (decreasing), 1 (increasing), 2 (stopped).\<close>

definition currentValue :: "IFeelShutter \<Rightarrow> int" where
  "currentValue s =
     (if currentPosition s > targetPosition s then 0
      else if currentPosition s < targetPosition s then 1
      else 2)"

section \<open>Hub client (iFeelAPI.ts)\<close>

text \<open>
  An \<open>async\<close> method runs synchronously up to its \<open>await\<close>: it writes its first log
  line and sends the HTTP request, and the rest of its body is suspended until the request
  settles. None of the methods has a \<open>try\<close>/\<open>catch\<close>: when the request is rejected the
  \<open>await\<close> throws, the rest of the body (the second log line) is skipped and the promise
  the method returned is rejected with the same error.
\<close>

definition getShutterPosition :: "continuation \<Rightarrow> IFeelShutter \<Rightarrow> IFeelShutter" where
  "getShutterPosition k s =
     (emit [Log Info (GettingUnitData (shutterId s)), HttpGetUnit (shutterId s)] s)
       \<lparr>pending := pending s @ [k]\<rparr>"

definition getShutterPosition_resume ::
  "response outcome \<Rightarrow> IFeelShutter \<Rightarrow> int outcome \<times> IFeelShutter" where
  "getShutterPosition_resume r s =
     (case r of
        Resolved resp \<Rightarrow>
          (Resolved (currStatus resp), emit [Log Info (GotUnitDataResponse (status resp))] s)
      | Rejected e \<Rightarrow> (Rejected e, s))"

definition postShutterAction :: "int \<Rightarrow> int \<Rightarrow> IFeelShutter \<Rightarrow> IFeelShutter" where
  "postShutterAction i v s =
     (emit [Log Info (PostingUnitAction i v), HttpPostAction i v] s)
       \<lparr>pending := pending s @ [PostAction]\<rparr>"

definition postShutterAction_resume ::
  "response outcome \<Rightarrow> IFeelShutter \<Rightarrow> unit outcome \<times> IFeelShutter" where
  "postShutterAction_resume r s =
     (case r of
        Resolved resp \<Rightarrow>
          (Resolved (), emit [Log Info (GotUnitActionResponse (status resp))] s)
      | Rejected e \<Rightarrow> (Rejected e, s))"

text \<open>
  \<open>p.then(f)\<close> with no rejection handler, the derived promise dropped: \<open>f\<close> runs when
  \<open>p\<close> is fulfilled; when \<open>p\<close> is rejected \<open>f\<close> is skipped and the rejection, which
  nobody handles, is reported by the runtime. A promise that is dropped without any
  handler (\<open>dropped\<close>) behaves the same way without an \<open>f\<close>.
\<close>

definition then_only ::
  "'a outcome \<times> IFeelShutter \<Rightarrow> ('a \<Rightarrow> IFeelShutter \<Rightarrow> IFeelShutter) \<Rightarrow> IFeelShutter" where
  "then_only ps f =
     (case fst ps of
        Resolved x \<Rightarrow> f x (snd ps)
      | Rejected e \<Rightarrow> emit [UnhandledRejection e] (snd ps))"

definition dropped :: "'a outcome \<times> IFeelShutter \<Rightarrow> IFeelShutter" where
  "dropped ps =
     (case fst ps of
        Resolved x \<Rightarrow> snd ps
      | Rejected e \<Rightarrow> emit [UnhandledRejection e] (snd ps))"

text \<open>
  The session of the hub client: the cookie stored by \<open>authenticate\<close>, and the effects of
  the platform's authentication calls.
\<close>

record IFeelAPI =
  sessionCookie :: string
  apiEffects :: "effect list"

definition authenticate :: "IFeelAPI \<Rightarrow> IFeelAPI" where
  "authenticate a = a\<lparr>apiEffects := apiEffects a @ [Log Info SendingAuthentication, HttpGetLogin]\<rparr>"

definition authenticate_resume :: "string outcome \<Rightarrow> IFeelAPI \<Rightarrow> unit outcome \<times> IFeelAPI" where
  "authenticate_resume r a =
     (case r of
        Resolved cookie \<Rightarrow>
          (Resolved (),
           a\<lparr>apiEffects := apiEffects a @ [Log Info AuthenticatedOK], sessionCookie := cookie\<rparr>)
      | Rejected e \<Rightarrow> (Rejected e, a))"

text \<open>
  The platform's re-authentication timer runs \<open>this.iFeelApi.authenticate();\<close> and drops
  the promise. \<open>reauthenticate\<close> is one firing of that timer with the way its login
  request settles.
\<close>

definition reauthenticate :: "string outcome \<Rightarrow> IFeelAPI \<Rightarrow> IFeelAPI" where
  "reauthenticate r a =
     (case authenticate_resume r (authenticate a) of
        (Resolved x, a') \<Rightarrow> a'
      | (Rejected e, a') \<Rightarrow> a'\<lparr>apiEffects := apiEffects a' @ [UnhandledRejection e]\<rparr>)"

section \<open>Timers\<close>

definition setInterval :: "int \<Rightarrow> IFeelShutter \<Rightarrow> nat \<times> IFeelShutter" where
  "setInterval ms s =
     (nextHandle s,
      (emit [SetInterval (nextHandle s) ms] s)
        \<lparr>timers := nextHandle s # timers s, nextHandle := Suc (nextHandle s)\<rparr>)"

definition clearInterval :: "nat \<Rightarrow> IFeelShutter \<Rightarrow> IFeelShutter" where
  "clearInterval t s = (emit [ClearInterval t] s)\<lparr>timers := removeAll t (timers s)\<rparr>"

definition setTimeout :: "int \<Rightarrow> IFeelShutter \<Rightarrow> nat \<times> IFeelShutter" where
  "setTimeout ms s =
     (nextHandle s,
      (emit [SetTimeout (nextHandle s) ms] s)
        \<lparr>timers := nextHandle s # timers s, nextHandle := Suc (nextHandle s)\<rparr>)"

definition clearTimeout :: "nat \<Rightarrow> IFeelShutter \<Rightarrow> IFeelShutter" where
  "clearTimeout t s = (emit [ClearTimeout t] s)\<lparr>timers := removeAll t (timers s)\<rparr>"

section \<open>The polling revision of the accessory\<close>

definition clearIntervalSafe :: "IFeelShutter \<Rightarrow> IFeelShutter" where
  "clearIntervalSafe s =
     (case updateTargetInterval s of
        Some t \<Rightarrow> assign_updateTargetInterval None (clearInterval t s)
      | None \<Rightarrow> s)"

text \<open>The constructor's closure: both positions take the first reading.\<close>

definition seed_then :: "int \<Rightarrow> IFeelShutter \<Rightarrow> IFeelShutter" where
  "seed_then position s = assign_targetPosition position (assign_currentPosition position s)"

definition handleCurrentPositionGet_poll :: "IFeelShutter \<Rightarrow> IFeelShutter" where
  "handleCurrentPositionGet_poll s =
     getShutterPosition CurrentGet_resync (emit [Log Debug TriggeredGetCurrentPosition] s)"

definition currentGet_resync_then :: "int \<Rightarrow> IFeelShutter \<Rightarrow> IFeelShutter" where
  "currentGet_resync_then position s =
     (let s1 = assign_currentPosition position s;
          s2 = (if updateTargetInterval s1 = None \<and> currentPosition s1 \<noteq> targetPosition s1
                then (let a = assign_targetPosition position s1;
                          b = emit [UpdateCharacteristic TargetPosition (Num position)] a
                      in emit [UpdateCharacteristic PositionStateCh
                                 (PosState (calculateCurrentPositionState b))] b)
                else s1)
      in emit [Callback (Some (Num position))] s2)"

definition handleTargetPositionGet_poll :: "IFeelShutter \<Rightarrow> IFeelShutter" where
  "handleTargetPositionGet_poll s =
     getShutterPosition TargetGet_resync (emit [Log Debug TriggeredGetTargetPosition] s)"

definition targetGet_resync_then :: "int \<Rightarrow> IFeelShutter \<Rightarrow> IFeelShutter" where
  "targetGet_resync_then position s =
     (let s1 = assign_currentPosition position s;
          s2 = emit [UpdateCharacteristic CurrentPosition (Num position)] s1;
          s3 = (if updateTargetInterval s2 = None \<and> currentPosition s2 \<noteq> targetPosition s2
                then (let a = assign_targetPosition position s2
                      in emit [UpdateCharacteristic PositionStateCh
                                 (PosState (calculateCurrentPositionState a))] a)
                else s2)
      in emit [Callback (Some (Num (targetPosition s3)))] s3)"

definition handleTargetPositionSet_poll :: "platform \<Rightarrow> int \<Rightarrow> IFeelShutter \<Rightarrow> IFeelShutter" where
  "handleTargetPositionSet_poll P v s =
     (let s1 = emit [Log Debug (TriggeredSetTargetPosition v)] s;
          s2 = assign_targetPosition v s1;
          s3 = postShutterAction (shutterId s2) v s2;
          s4 = assign_intervalDurationSum 0 s3;
          s5 = clearIntervalSafe s4;
          (h, s6) = setInterval (pollingInterval P) s5;
          s7 = assign_updateTargetInterval (Some h) s6
      in emit [Callback None] s7)"

text \<open>The function given to \<open>setInterval\<close> only starts a read; this is the closure that
  runs when the read is fulfilled.\<close>

definition pollTick_then :: "platform \<Rightarrow> int \<Rightarrow> IFeelShutter \<Rightarrow> IFeelShutter" where
  "pollTick_then P position s =
     (let s1 = assign_intervalDurationSum (intervalDurationSum s + pollingInterval P) s;
          s2 = assign_currentPosition position s1;
          s3 = emit [UpdateCharacteristic CurrentPosition (Num (currentPosition s2))] s2;
          s4 = emit [UpdateCharacteristic PositionStateCh
                       (PosState (calculateCurrentPositionState s3))] s3;
          s5 = (if intervalDurationSum s4 \<ge> maxPollingTime P
                then clearIntervalSafe (emit [Log Info (StoppingPolling (shutterId s4))] s4)
                else s4)
      in if currentPosition s5 = targetPosition s5 then clearIntervalSafe s5 else s5)"

text \<open>\<open>handlePositionStateGet\<close> is the same in the polling and the deferred-check
  revision.\<close>

definition handlePositionStateGet :: "IFeelShutter \<Rightarrow> IFeelShutter" where
  "handlePositionStateGet s =
     getShutterPosition PositionStateGet (emit [Log Debug TriggeredGetPositionState] s)"

definition positionStateGet_then :: "int \<Rightarrow> IFeelShutter \<Rightarrow> IFeelShutter" where
  "positionStateGet_then position s =
     (let s1 = assign_currentPosition position s
      in emit [Callback (Some (PosState (calculateCurrentPositionState s1)))] s1)"

section \<open>The deferred-check revision (src/platformAccessory.ts)\<close>

text \<open>\<open>handleCurrentPositionGet\<close> and \<open>handleTargetPositionGet\<close> are the same in this
  revision and in the first one: the target getter answers from the stored field.\<close>

definition handleCurrentPositionGet :: "IFeelShutter \<Rightarrow> IFeelShutter" where
  "handleCurrentPositionGet s =
     getShutterPosition CurrentGet (emit [Log Debug TriggeredGetCurrentPosition] s)"

definition currentGet_then :: "int \<Rightarrow> IFeelShutter \<Rightarrow> IFeelShutter" where
  "currentGet_then position s =
     emit [Callback (Some (Num position))] (assign_currentPosition position s)"

definition handleTargetPositionGet :: "IFeelShutter \<Rightarrow> IFeelShutter" where
  "handleTargetPositionGet s =
     (let s1 = emit [Log Debug TriggeredGetTargetPosition] s
      in emit [Callback (Some (Num (targetPosition s1)))] s1)"

definition handleTargetPositionSet_defer :: "int \<Rightarrow> IFeelShutter \<Rightarrow> IFeelShutter" where
  "handleTargetPositionSet_defer v s =
     (let s1 = emit [Log Debug (TriggeredSetTargetPosition v)] s;
          s2 = assign_targetPosition v s1;
          s3 = postShutterAction (shutterId s2) v s2;
          s4 = (case updateTargetPositionTimeout s3 of
                  Some t \<Rightarrow> clearTimeout t s3
                | None \<Rightarrow> s3);
          (h, s5) = setTimeout (1000 * 40) s4;
          s6 = assign_updateTargetPositionTimeout (Some h) s5
      in emit [Callback None] s6)"

definition deferredCheck_then :: "int \<Rightarrow> IFeelShutter \<Rightarrow> IFeelShutter" where
  "deferredCheck_then position s =
     (let s1 = emit [Log Info UpdatingAfterTimeout] s;
          s2 = assign_currentPosition position s1;
          s3 = assign_targetPosition position s2
      in emit [SetCharacteristic PositionStateCh
                 (PosState (calculateCurrentPositionState s3))] s3)"

section \<open>The first revision: no timer, no seed\<close>

definition handleTargetPositionSet_first :: "int \<Rightarrow> IFeelShutter \<Rightarrow> IFeelShutter" where
  "handleTargetPositionSet_first v s =
     (let s1 = emit [Log Debug (TriggeredSetTargetPosition v)] s;
          s2 = assign_targetPosition v s1;
          s3 = postShutterAction (shutterId s2) v s2
      in emit [Callback None] s3)"

definition handlePositionStateGet_first :: "IFeelShutter \<Rightarrow> IFeelShutter" where
  "handlePositionStateGet_first s =
     getShutterPosition PositionStateGet_inline (emit [Log Debug TriggeredGetPositionState] s)"

definition positionStateGet_inline_then :: "int \<Rightarrow> IFeelShutter \<Rightarrow> IFeelShutter" where
  "positionStateGet_inline_then position s =
     (let s1 = assign_currentPosition position s
      in emit [Callback (Some (Num (currentValue s1)))] s1)"

section \<open>The event loop of one shutter\<close>

text \<open>What runs when a pending hub request settles with \<open>r\<close>.\<close>

definition resume :: "platform \<Rightarrow> continuation \<Rightarrow> response outcome \<Rightarrow> IFeelShutter \<Rightarrow> IFeelShutter" where
  "resume P k r s =
     (case k of
        Seed \<Rightarrow> then_only (getShutterPosition_resume r s) seed_then
      | CurrentGet_resync \<Rightarrow> then_only (getShutterPosition_resume r s) currentGet_resync_then
      | TargetGet_resync \<Rightarrow> then_only (getShutterPosition_resume r s) targetGet_resync_then
      | CurrentGet \<Rightarrow> then_only (getShutterPosition_resume r s) currentGet_then
      | PositionStateGet \<Rightarrow> then_only (getShutterPosition_resume r s) positionStateGet_then
      | PositionStateGet_inline \<Rightarrow>
          then_only (getShutterPosition_resume r s) positionStateGet_inline_then
      | PollTick \<Rightarrow> then_only (getShutterPosition_resume r s) (pollTick_then P)
      | DeferredCheck \<Rightarrow> then_only (getShutterPosition_resume r s) deferredCheck_then
      | PostAction \<Rightarrow> dropped (postShutterAction_resume r s))"

datatype revision = Polling | Deferred | First

text \<open>
  What can happen to a shutter: the host calls one of the four handlers, the runtime
  fires a timer, or the hub request at some index of the pending list settles. A timer
  that is not live never fires, and there is nothing to settle beyond the pending list.
  An interval timer stays live when it fires; a timeout does not.
\<close>

datatype event =
    GetCurrentPosition
  | GetTargetPosition
  | SetTargetPosition int
  | GetPositionState
  | TimerFires nat
  | HubReply nat "response outcome"

definition settle :: "platform \<Rightarrow> nat \<Rightarrow> response outcome \<Rightarrow> IFeelShutter \<Rightarrow> IFeelShutter" where
  "settle P i r s =
     (if i < length (pending s)
      then resume P (pending s ! i) r (s\<lparr>pending := take i (pending s) @ drop (Suc i) (pending s)\<rparr>)
      else s)"

fun step :: "platform \<Rightarrow> revision \<Rightarrow> event \<Rightarrow> IFeelShutter \<Rightarrow> IFeelShutter" where
  "step P rv (HubReply i r) s = settle P i r s"
| "step P Polling GetCurrentPosition s = handleCurrentPositionGet_poll s"
| "step P Polling GetTargetPosition s = handleTargetPositionGet_poll s"
| "step P Polling (SetTargetPosition v) s = handleTargetPositionSet_poll P v s"
| "step P Polling GetPositionState s = handlePositionStateGet s"
| "step P Polling (TimerFires t) s =
     (if t \<in> set (timers s) then getShutterPosition PollTick s else s)"
| "step P Deferred GetCurrentPosition s = handleCurrentPositionGet s"
| "step P Deferred GetTargetPosition s = handleTargetPositionGet s"
| "step P Deferred (SetTargetPosition v) s = handleTargetPositionSet_defer v s"
| "step P Deferred GetPositionState s = handlePositionStateGet s"
| "step P Deferred (TimerFires t) s =
     (if t \<in> set (timers s)
      then getShutterPosition DeferredCheck (s\<lparr>timers := removeAll t (timers s)\<rparr>)
      else s)"
| "step P First GetCurrentPosition s = handleCurrentPositionGet s"
| "step P First GetTargetPosition s = handleTargetPositionGet s"
| "step P First (SetTargetPosition v) s = handleTargetPositionSet_first v s"
| "step P First GetPositionState s = handlePositionStateGet_first s"
| "step P First (TimerFires t) s = s"

fun run :: "platform \<Rightarrow> revision \<Rightarrow> event list \<Rightarrow> IFeelShutter \<Rightarrow> IFeelShutter" where
  "run P rv [] s = s"
| "run P rv (e # es) s = run P rv es (step P rv e s)"

text \<open>
  The constructor, as far as the tracker goes (the registration of the handlers and the
  accessory information are the host's): both positions 0, no timer, and, except in the
  first revision, the seed read started.
\<close>

definition blank :: "int \<Rightarrow> IFeelShutter" where
  "blank sid =
     \<lparr> shutterId = sid, targetPosition = 0, currentPosition = 0,
       updateTargetInterval = None, intervalDurationSum = 0,
       updateTargetPositionTimeout = None,
       timers = [], nextHandle = 0, pending = [], effects = [] \<rparr>"

definition constructor :: "revision \<Rightarrow> int \<Rightarrow> IFeelShutter" where
  "constructor rv sid =
     (case rv of
        First \<Rightarrow> blank sid
      | Polling \<Rightarrow> getShutterPosition Seed (blank sid)
      | Deferred \<Rightarrow> getShutterPosition Seed (blank sid))"

text \<open>
  One poll of the polling revision against a hub that answers before the next tick: the
  interval timer held in \<open>updateTargetInterval\<close> fires and the read it starts (the newest
  pending request) settles with \<open>r\<close>. With no timer held there is no tick.
\<close>

definition poll :: "platform \<Rightarrow> response outcome \<Rightarrow> IFeelShutter \<Rightarrow> IFeelShutter" where
  "poll P r s =
     (case updateTargetInterval s of
        None \<Rightarrow> s
      | Some t \<Rightarrow>
          (let s1 = step P Polling (TimerFires t) s
           in if t \<in> set (timers s)
              then step P Polling (HubReply (length (pending s)) r) s1
              else s1))"

fun polls :: "platform \<Rightarrow> response outcome list \<Rightarrow> IFeelShutter \<Rightarrow> IFeelShutter" where
  "polls P [] s = s"
| "polls P (r # rs) s = polls P rs (poll P r s)"

section \<open>Predicates used by the properties\<close>

text \<open>Both stored positions are percentages.\<close>

definition in_range :: "IFeelShutter \<Rightarrow> bool" where
  "in_range s = (0 \<le> currentPosition s \<and> currentPosition s \<le> 100
                 \<and> 0 \<le> targetPosition s \<and> targetPosition s \<le> 100)"

text \<open>An event brings a percentage from outside, if it brings a position at all.\<close>

fun percentage_event :: "event \<Rightarrow> bool" where
  "percentage_event (SetTargetPosition v) = (0 \<le> v \<and> v \<le> 100)"
| "percentage_event (HubReply i (Resolved r)) = (0 \<le> currStatus r \<and> currStatus r \<le> 100)"
| "percentage_event e = True"

text \<open>The live timers are at most the one whose handle the object holds.\<close>

definition timer_inv :: "revision \<Rightarrow> IFeelShutter \<Rightarrow> bool" where
  "timer_inv rv s =
     (case rv of
        Polling \<Rightarrow> (case updateTargetInterval s of
                       None \<Rightarrow> timers s = []
                     | Some t \<Rightarrow> timers s = [t] \<and> t < nextHandle s)
      | Deferred \<Rightarrow> (case updateTargetPositionTimeout s of
                        None \<Rightarrow> timers s = []
                      | Some t \<Rightarrow> (timers s = [] \<or> timers s = [t]) \<and> t < nextHandle s)
      | First \<Rightarrow> timers s = [])"

text \<open>The log line written when the polling cap is reached, and how often it was
  written.\<close>

fun is_capLog :: "effect \<Rightarrow> bool" where
  "is_capLog (Log Info (StoppingPolling i)) = True"
| "is_capLog e = False"

definition capLogs :: "IFeelShutter \<Rightarrow> nat" where
  "capLogs s = length (filter is_capLog (effects s))"

text \<open>
  Three conditions on an event, for the time between the construction and the answer to
  the seed read. \<open>before_seed\<close>: it is not a \<open>setTargetPosition\<close> call and does not
  settle the oldest pending request (the seed read, as long as it is pending).
  \<open>nothing_answered\<close>: it is not a \<open>setTargetPosition\<close> call and no hub read is answered
  with a position. \<open>no_set\<close>: it is not a \<open>setTargetPosition\<close> call.
\<close>

fun before_seed :: "event \<Rightarrow> bool" where
  "before_seed (SetTargetPosition v) = False"
| "before_seed (HubReply 0 r) = False"
| "before_seed e = True"

fun nothing_answered :: "event \<Rightarrow> bool" where
  "nothing_answered (SetTargetPosition v) = False"
| "nothing_answered (HubReply i (Resolved r)) = False"
| "nothing_answered e = True"

fun no_set :: "event \<Rightarrow> bool" where
  "no_set (SetTargetPosition v) = False"
| "no_set e = True"

text \<open>Invariants of that time: the seed read is the oldest pending request; in the
  deferred-check revision the target is still 0, no timer is live and the other pending
  requests are reads of the two getters; both positions are still 0.\<close>

definition seed_pending :: "IFeelShutter \<Rightarrow> bool" where
  "seed_pending s = (case pending s of [] \<Rightarrow> False | k # ks \<Rightarrow> k = Seed)"

definition window_inv :: "IFeelShutter \<Rightarrow> bool" where
  "window_inv s =
     (targetPosition s = 0 \<and> timers s = []
      \<and> (case pending s of
            [] \<Rightarrow> False
          | k # ks \<Rightarrow> k = Seed \<and> list_all (\<lambda>k. k = CurrentGet \<or> k = PositionStateGet) ks))"

definition untouched :: "IFeelShutter \<Rightarrow> bool" where
  "untouched s = (currentPosition s = 0 \<and> targetPosition s = 0)"

section \<open>Auxiliary lemmas\<close>

lemmas assign_defs = assign_targetPosition_def assign_currentPosition_def
  assign_intervalDurationSum_def assign_updateTargetInterval_def
  assign_updateTargetPositionTimeout_def

lemmas hub_defs = emit_def assign_defs getShutterPosition_def getShutterPosition_resume_def
  postShutterAction_def postShutterAction_resume_def then_only_def dropped_def

lemmas timer_defs = setInterval_def clearInterval_def setTimeout_def clearTimeout_def
  clearIntervalSafe_def

lemmas then_defs = seed_then_def currentGet_resync_then_def targetGet_resync_then_def
  currentGet_then_def positionStateGet_then_def positionStateGet_inline_then_def
  pollTick_then_def deferredCheck_then_def

lemmas handler_defs = handleCurrentPositionGet_poll_def handleTargetPositionGet_poll_def
  handleTargetPositionSet_poll_def handlePositionStateGet_def handleCurrentPositionGet_def
  handleTargetPositionGet_def handleTargetPositionSet_defer_def
  handleTargetPositionSet_first_def handlePositionStateGet_first_def

subsection \<open>What the set handlers do, in closed form\<close>

lemma set_poll_effects:
  "effects (handleTargetPositionSet_poll P v s) =
     effects s @ [Log Debug (TriggeredSetTargetPosition v),
                  AssignTargetPosition v,
                  Log Info (PostingUnitAction (shutterId s) v),
                  HttpPostAction (shutterId s) v,
                  AssignIntervalDurationSum 0]
               @ (case updateTargetInterval s of
                    Some t \<Rightarrow> [ClearInterval t, AssignUpdateTargetInterval None]
                  | None \<Rightarrow> [])
               @ [SetInterval (nextHandle s) (pollingInterval P),
                  AssignUpdateTargetInterval (Some (nextHandle s)),
                  Callback None]"
  by (simp add: handleTargetPositionSet_poll_def hub_defs timer_defs Let_def split: option.splits)

lemma set_poll_fields:
  "targetPosition (handleTargetPositionSet_poll P v s) = v"
  "intervalDurationSum (handleTargetPositionSet_poll P v s) = 0"
  "updateTargetInterval (handleTargetPositionSet_poll P v s) = Some (nextHandle s)"
  "pending (handleTargetPositionSet_poll P v s) = pending s @ [PostAction]"
  "nextHandle (handleTargetPositionSet_poll P v s) = Suc (nextHandle s)"
  "currentPosition (handleTargetPositionSet_poll P v s) = currentPosition s"
  "shutterId (handleTargetPositionSet_poll P v s) = shutterId s"
  "timers (handleTargetPositionSet_poll P v s) =
     nextHandle s # (case updateTargetInterval s of
                       Some t \<Rightarrow> removeAll t (timers s)
                     | None \<Rightarrow> timers s)"
  by (simp_all add: handleTargetPositionSet_poll_def hub_defs timer_defs Let_def
        split: option.splits)

lemma set_defer_effects:
  "effects (handleTargetPositionSet_defer v s) =
     effects s @ [Log Debug (TriggeredSetTargetPosition v),
                  AssignTargetPosition v,
                  Log Info (PostingUnitAction (shutterId s) v),
                  HttpPostAction (shutterId s) v]
               @ (case updateTargetPositionTimeout s of Some t \<Rightarrow> [ClearTimeout t] | None \<Rightarrow> [])
               @ [SetTimeout (nextHandle s) 40000,
                  AssignUpdateTargetPositionTimeout (Some (nextHandle s)),
                  Callback None]"
  by (simp add: handleTargetPositionSet_defer_def hub_defs timer_defs Let_def split: option.splits)

lemma set_defer_fields:
  "targetPosition (handleTargetPositionSet_defer v s) = v"
  "updateTargetPositionTimeout (handleTargetPositionSet_defer v s) = Some (nextHandle s)"
  "pending (handleTargetPositionSet_defer v s) = pending s @ [PostAction]"
  "nextHandle (handleTargetPositionSet_defer v s) = Suc (nextHandle s)"
  "currentPosition (handleTargetPositionSet_defer v s) = currentPosition s"
  "timers (handleTargetPositionSet_defer v s) =
     nextHandle s # (case updateTargetPositionTimeout s of
                       Some t \<Rightarrow> removeAll t (timers s)
                     | None \<Rightarrow> timers s)"
  by (simp_all add: handleTargetPositionSet_defer_def hub_defs timer_defs Let_def
        split: option.splits)

lemma set_first_fields:
  "targetPosition (handleTargetPositionSet_first v s) = v"
  "pending (handleTargetPositionSet_first v s) = pending s @ [PostAction]"
  "effects (handleTargetPositionSet_first v s) =
     effects s @ [Log Debug (TriggeredSetTargetPosition v),
                  AssignTargetPosition v,
                  Log Info (PostingUnitAction (shutterId s) v),
                  HttpPostAction (shutterId s) v, Callback None]"
  by (simp_all add: handleTargetPositionSet_first_def hub_defs Let_def)

subsection \<open>A rejected hub request\<close>

lemma settle_rejected:
  "i < length (pending s) \<Longrightarrow>
   settle P i (Rejected e) s =
     s\<lparr>pending := take i (pending s) @ drop (Suc i) (pending s),
       effects := effects s @ [UnhandledRejection e]\<rparr>"
  by (simp add: settle_def resume_def hub_defs split: continuation.splits)

lemma reauthenticate_rejected:
  "reauthenticate (Rejected e) a =
     a\<lparr>apiEffects := apiEffects a
          @ [Log Info SendingAuthentication, HttpGetLogin, UnhandledRejection e]\<rparr>"
  by (simp add: reauthenticate_def authenticate_def authenticate_resume_def)

subsection \<open>Positions stay percentages when the inputs are\<close>

lemma resume_in_range:
  "in_range s \<Longrightarrow> percentage_event (HubReply i r) \<Longrightarrow> in_range (resume P k r s)"
  by (cases r; cases k)
     (simp_all add: in_range_def resume_def hub_defs then_defs timer_defs Let_def split: option.splits)

lemma settle_in_range:
  "in_range s \<Longrightarrow> percentage_event (HubReply i r) \<Longrightarrow> in_range (settle P i r s)"
proof -
  assume a: "in_range s" and b: "percentage_event (HubReply i r)"
  have "in_range (s\<lparr>pending := take i (pending s) @ drop (Suc i) (pending s)\<rparr>)"
    using a by (simp add: in_range_def)
  then show ?thesis using b by (simp add: settle_def resume_in_range a)
qed

lemma step_in_range:
  "in_range s \<Longrightarrow> percentage_event e \<Longrightarrow> in_range (step P rv e s)"
proof (cases e)
  case (HubReply i r)
  assume "in_range s" "percentage_event e"
  then show ?thesis using HubReply by (simp add: settle_in_range)
next
  case GetCurrentPosition
  assume "in_range s"
  then show ?thesis using GetCurrentPosition
    by (cases rv) (simp_all add: in_range_def handler_defs hub_defs)
next
  case GetTargetPosition
  assume "in_range s"
  then show ?thesis using GetTargetPosition
    by (cases rv) (simp_all add: in_range_def handler_defs hub_defs Let_def)
next
  case (SetTargetPosition v)
  assume "in_range s" "percentage_event e"
  then show ?thesis using SetTargetPosition
    by (cases rv) (simp_all add: in_range_def handler_defs hub_defs timer_defs Let_def split: option.splits)
next
  case GetPositionState
  assume "in_range s"
  then show ?thesis using GetPositionState
    by (cases rv) (simp_all add: in_range_def handler_defs hub_defs)
next
  case (TimerFires t)
  assume "in_range s"
  then show ?thesis using TimerFires
    by (cases rv) (simp_all add: in_range_def hub_defs)
qed

lemma run_in_range:
  "in_range s \<Longrightarrow> list_all percentage_event es \<Longrightarrow> in_range (run P rv es s)"
  by (induction es arbitrary: s) (simp_all add: step_in_range)

lemma constructor_in_range: "in_range (constructor rv sid)"
  by (cases rv) (simp_all add: in_range_def constructor_def blank_def hub_defs)

subsection \<open>Live timers\<close>

lemma resume_timer_inv:
  "timer_inv rv s \<Longrightarrow> timer_inv rv (resume P k r s)"
  by (cases r; cases k; cases rv)
     (auto simp add: timer_inv_def resume_def hub_defs then_defs timer_defs Let_def
           split: option.splits if_splits)

lemma settle_timer_inv:
  "timer_inv rv s \<Longrightarrow> timer_inv rv (settle P i r s)"
proof -
  assume a: "timer_inv rv s"
  have "timer_inv rv (s\<lparr>pending := take i (pending s) @ drop (Suc i) (pending s)\<rparr>)"
    using a by (cases rv) (simp_all add: timer_inv_def split: option.splits)
  then show ?thesis using a by (simp add: settle_def resume_timer_inv)
qed

lemma getShutterPosition_timer_inv:
  "timer_inv rv s \<Longrightarrow> timer_inv rv (getShutterPosition k s)"
  by (cases rv) (simp_all add: timer_inv_def hub_defs split: option.splits)

lemma emit_timer_inv:
  "timer_inv rv s \<Longrightarrow> timer_inv rv (emit es s)"
  by (cases rv) (simp_all add: timer_inv_def hub_defs split: option.splits)

lemma step_timer_inv:
  "timer_inv rv s \<Longrightarrow> timer_inv rv (step P rv e s)"
proof (cases e)
  case (HubReply i r)
  assume "timer_inv rv s"
  then show ?thesis using HubReply by (simp add: settle_timer_inv)
next
  case GetCurrentPosition
  assume "timer_inv rv s"
  then show ?thesis using GetCurrentPosition
    by (cases rv) (simp_all add: handler_defs getShutterPosition_timer_inv emit_timer_inv)
next
  case GetTargetPosition
  assume "timer_inv rv s"
  then show ?thesis using GetTargetPosition
    by (cases rv) (simp_all add: handler_defs Let_def getShutterPosition_timer_inv emit_timer_inv)
next
  case (SetTargetPosition v)
  assume "timer_inv rv s"
  then show ?thesis using SetTargetPosition
    by (cases rv) (auto simp add: timer_inv_def handler_defs hub_defs timer_defs Let_def split: option.splits)
next
  case GetPositionState
  assume "timer_inv rv s"
  then show ?thesis using GetPositionState
    by (cases rv) (simp_all add: handler_defs getShutterPosition_timer_inv emit_timer_inv)
next
  case (TimerFires t)
  assume "timer_inv rv s"
  then show ?thesis using TimerFires
    by (cases rv) (auto simp add: timer_inv_def hub_defs split: option.splits)
qed

lemma run_timer_inv:
  "timer_inv rv s \<Longrightarrow> timer_inv rv (run P rv es s)"
  by (induction es arbitrary: s) (simp_all add: step_timer_inv)

lemma constructor_timer_inv: "timer_inv rv (constructor rv sid)"
  by (cases rv) (simp_all add: timer_inv_def constructor_def blank_def hub_defs)

lemma timer_inv_length: "timer_inv rv s \<Longrightarrow> length (timers s) \<le> 1"
  by (cases rv) (auto simp add: timer_inv_def split: option.splits)

subsection \<open>A polling session against a prompt hub\<close>






lemma poll_rejected:
  assumes "updateTargetInterval s = Some t" "t \<in> set (timers s)"
  shows "poll P (Rejected e) s =
           emit [Log Info (GettingUnitData (shutterId s)), HttpGetUnit (shutterId s),
                 UnhandledRejection e] s"
  using assms by (simp add: poll_def settle_def resume_def hub_defs)

lemma polls_rejected:
  assumes "updateTargetInterval s = Some t" "t \<in> set (timers s)"
  shows "intervalDurationSum (polls P (map Rejected es) s) = intervalDurationSum s
       \<and> updateTargetInterval (polls P (map Rejected es) s) = Some t
       \<and> timers (polls P (map Rejected es) s) = timers s
       \<and> capLogs (polls P (map Rejected es) s) = capLogs s
       \<and> length (filter is_HubRequest (effects (polls P (map Rejected es) s))) =
           length (filter is_HubRequest (effects s)) + length es"
  using assms
proof (induction es arbitrary: s)
  case Nil
  then show ?case by simp
next
  case (Cons e es)
  let ?s' = "poll P (Rejected e) s"
  have eq: "?s' = emit [Log Info (GettingUnitData (shutterId s)), HttpGetUnit (shutterId s),
                 UnhandledRejection e] s"
    using Cons.prems by (rule poll_rejected)
  have a: "updateTargetInterval ?s' = Some t" and b: "t \<in> set (timers ?s')"
    using Cons.prems by (simp_all add: eq emit_def)
  from Cons.IH [OF a b] show ?case
    by (simp add: eq emit_def capLogs_def)
qed

subsection \<open>Between the construction and the answer to the seed read\<close>

lemma list_all_remove_nth:
  "list_all Q ks \<Longrightarrow> list_all Q (take i ks @ drop (Suc i) ks)"
  by (auto simp add: list_all_iff dest: in_set_takeD in_set_dropD)

lemma window_inv_step:
  assumes "window_inv s" and "before_seed e"
  shows "window_inv (step P Deferred e s)"
proof -
  from assms(1) obtain ks where p: "pending s = Seed # ks"
    and ks: "list_all (\<lambda>k. k = CurrentGet \<or> k = PositionStateGet) ks"
    and tg: "targetPosition s = 0" and tm: "timers s = []"
    by (auto simp add: window_inv_def split: list.splits)
  show ?thesis
  proof (cases e)
    case GetCurrentPosition
    then show ?thesis using p ks tg tm
      by (simp add: window_inv_def handleCurrentPositionGet_def hub_defs)
  next
    case GetTargetPosition
    then show ?thesis using p ks tg tm
      by (simp add: window_inv_def handleTargetPositionGet_def hub_defs Let_def)
  next
    case (SetTargetPosition v)
    then show ?thesis using assms(2) by simp
  next
    case GetPositionState
    then show ?thesis using p ks tg tm
      by (simp add: window_inv_def handlePositionStateGet_def hub_defs)
  next
    case (TimerFires t)
    then show ?thesis using assms(1) tm by simp
  next
    case (HubReply i r)
    with assms(2) obtain j where i: "i = Suc j" by (cases i) simp_all
    show ?thesis
    proof (cases "j < length ks")
      case False
      then show ?thesis using HubReply i p assms(1) by (simp add: settle_def)
    next
      case True
      then have k: "ks ! j = CurrentGet \<or> ks ! j = PositionStateGet"
        using ks by (simp add: list_all_length)
      have rest: "list_all (\<lambda>k. k = CurrentGet \<or> k = PositionStateGet) (take j ks @ drop (Suc j) ks)"
        using ks by (rule list_all_remove_nth)
      from k show ?thesis
        using HubReply i p True tg tm rest
        by (cases r)
           (auto simp add: window_inv_def settle_def resume_def hub_defs currentGet_then_def
              positionStateGet_then_def Let_def)
    qed
  qed
qed

lemma window_inv_run:
  "window_inv s \<Longrightarrow> list_all before_seed es \<Longrightarrow> window_inv (run P Deferred es s)"
  by (induction es arbitrary: s) (simp_all add: window_inv_step)

lemma window_inv_constructor: "window_inv (constructor Deferred sid)"
  by (simp add: window_inv_def constructor_def blank_def hub_defs)

lemma seed_pending_step:
  assumes "seed_pending s" and "before_seed e"
  shows "seed_pending (step P Polling e s)"
proof -
  from assms(1) obtain ks where p: "pending s = Seed # ks"
    by (auto simp add: seed_pending_def split: list.splits)
  show ?thesis
  proof (cases e)
    case (HubReply i r)
    with assms(2) obtain j where i: "i = Suc j" by (cases i) simp_all
    have keep: "pending (resume P k r s') = pending s'" for k s'
      by (cases r; cases k)
         (simp_all add: resume_def hub_defs then_defs timer_defs Let_def split: option.splits)
    show ?thesis using HubReply i p
      by (simp add: seed_pending_def settle_def keep)
  next
    case (SetTargetPosition v)
    then show ?thesis using assms(2) by simp
  qed (use p in \<open>simp_all add: seed_pending_def handler_defs hub_defs\<close>)
qed

lemma seed_pending_run:
  "seed_pending s \<Longrightarrow> list_all before_seed es \<Longrightarrow> seed_pending (run P Polling es s)"
  by (induction es arbitrary: s) (simp_all add: seed_pending_step)

lemma seed_answered:
  assumes "seed_pending s"
  shows "targetPosition (step P rv (HubReply 0 (Resolved r)) s) = currStatus r"
    and "currentPosition (step P rv (HubReply 0 (Resolved r)) s) = currStatus r"
proof -
  from assms obtain ks where p: "pending s = Seed # ks"
    by (auto simp add: seed_pending_def split: list.splits)
  show "targetPosition (step P rv (HubReply 0 (Resolved r)) s) = currStatus r"
    and "currentPosition (step P rv (HubReply 0 (Resolved r)) s) = currStatus r"
    using p by (simp_all add: settle_def resume_def hub_defs seed_then_def)
qed

lemma untouched_step:
  assumes "untouched s" and "nothing_answered e"
  shows "untouched (step P rv e s)"
proof (cases e)
  case (HubReply i r)
  with assms(2) obtain x where r: "r = Rejected x" by (cases r) simp_all
  show ?thesis
  proof (cases "i < length (pending s)")
    case True
    then show ?thesis using HubReply r assms(1) by (simp add: settle_rejected untouched_def)
  next
    case False
    then show ?thesis using HubReply assms(1) by (simp add: settle_def)
  qed
next
  case (SetTargetPosition v)
  then show ?thesis using assms(2) by simp
next
  case GetCurrentPosition
  then show ?thesis using assms(1)
    by (cases rv) (simp_all add: untouched_def handler_defs hub_defs)
next
  case GetTargetPosition
  then show ?thesis using assms(1)
    by (cases rv) (simp_all add: untouched_def handler_defs hub_defs Let_def)
next
  case GetPositionState
  then show ?thesis using assms(1)
    by (cases rv) (simp_all add: untouched_def handler_defs hub_defs)
next
  case (TimerFires t)
  then show ?thesis using assms(1)
    by (cases rv) (simp_all add: untouched_def hub_defs)
qed

lemma untouched_run:
  "untouched s \<Longrightarrow> list_all nothing_answered es \<Longrightarrow> untouched (run P rv es s)"
  by (induction es arbitrary: s) (simp_all add: untouched_step)

lemma untouched_constructor: "untouched (constructor rv sid)"
  by (cases rv) (simp_all add: untouched_def constructor_def blank_def hub_defs)

lemma resume_no_interval:
  "updateTargetInterval s = None \<Longrightarrow> updateTargetInterval (resume P k r s) = None"
  by (cases r; cases k)
     (simp_all add: resume_def hub_defs then_defs timer_defs Let_def)

lemma no_interval_step:
  assumes "updateTargetInterval s = None" and "no_set e"
  shows "updateTargetInterval (step P Polling e s) = None"
proof (cases e)
  case (HubReply i r)
  then show ?thesis using assms(1) by (simp add: settle_def resume_no_interval)
next
  case (SetTargetPosition v)
  then show ?thesis using assms(2) by simp
qed (use assms(1) in \<open>simp_all add: handler_defs hub_defs\<close>)

lemma no_interval_run:
  "updateTargetInterval s = None \<Longrightarrow> list_all no_set es \<Longrightarrow>
   updateTargetInterval (run P Polling es s) = None"
  by (induction es arbitrary: s) (simp_all add: no_interval_step)

lemma target_read_answered:
  assumes "updateTargetInterval s = None" and "i < length (pending s)"
    and "pending s ! i = TargetGet_resync"
  shows "filter is_Callback (effects (step P Polling (HubReply i (Resolved r)) s))
           = filter is_Callback (effects s) @ [Callback (Some (Num (currStatus r)))]"
  using assms
  by (simp add: settle_def resume_def hub_defs targetGet_resync_then_def Let_def)

section \<open>Properties\<close>

text \<open>
  C1. For every pair of integers (currentPosition, targetPosition) the derived motion
  state is Increasing exactly when current < target, Decreasing exactly when
  current > target, and Stopped exactly when both are equal. The same holds for the
  number computed in place by the first revision of the position-state getter.
\<close>

theorem calculateCurrentPositionState_iff:
  "(calculateCurrentPositionState (s\<lparr>currentPosition := c, targetPosition := t\<rparr>) = INCREASING)
     = (c < t)
   \<and> (calculateCurrentPositionState (s\<lparr>currentPosition := c, targetPosition := t\<rparr>) = DECREASING)
     = (c > t)
   \<and> (calculateCurrentPositionState (s\<lparr>currentPosition := c, targetPosition := t\<rparr>) = STOPPED)
     = (c = t)
   \<and> (currentValue (s\<lparr>currentPosition := c, targetPosition := t\<rparr>) = 1) = (c < t)
   \<and> (currentValue (s\<lparr>currentPosition := c, targetPosition := t\<rparr>) = 0) = (c > t)
   \<and> (currentValue (s\<lparr>currentPosition := c, targetPosition := t\<rparr>) = 2) = (c = t)"
  by (simp add: calculateCurrentPositionState_def currentValue_def)

text \<open>
  C2 (as stated, refuted). The claim has a failed command "only logged". Here the
  polling revision receives \<open>setTargetPosition(70)\<close> on a fresh shutter 5 and the command's
  request (pending request 1, after the seed read) is rejected: the only effect of the
  failure is the unhandled rejection; the log is what it was before the failure.
\<close>

theorem command_failure_not_logged:
  "effects (step (IFeelPlatform None) Polling (HubReply 1 (Rejected ''ECONNREFUSED''))
             (step (IFeelPlatform None) Polling (SetTargetPosition 70) (constructor Polling 5)))
   = effects (step (IFeelPlatform None) Polling (SetTargetPosition 70) (constructor Polling 5))
     @ [UnhandledRejection ''ECONNREFUSED'']
   \<and> filter is_Log
       (effects (step (IFeelPlatform None) Polling (HubReply 1 (Rejected ''ECONNREFUSED''))
                  (step (IFeelPlatform None) Polling (SetTargetPosition 70) (constructor Polling 5))))
   = filter is_Log
       (effects (step (IFeelPlatform None) Polling (SetTargetPosition 70) (constructor Polling 5)))"
  by (simp add: settle_rejected set_poll_fields constructor_def blank_def hub_defs)

text \<open>
  C2 (amended). For every value \<open>v\<close> and every state, in the polling and in the
  deferred-check revision, \<open>setTargetPosition(v)\<close> performs its effects in this order:
  (a) \<open>targetPosition\<close> is assigned \<open>v\<close>; (b) the position command is dispatched to the
  hub client, fire-and-forget (its log line and the POST, which stays pending); (c) any
  existing polling session is cancelled (polling revision: the accumulator is reset, the
  held interval is cleared and its handle dropped; deferred-check revision: the held
  timeout is cleared); (d) a new polling session begins (the new timer is set and its
  handle stored); then the completion callback is invoked, in the same turn, without
  waiting for the command round trip or the move. When the command is later rejected,
  nothing is surfaced to the caller and nothing is logged either: the only effect is the
  unhandled rejection.
\<close>

theorem handleTargetPositionSet_order:
  "targetPosition (step P Polling (SetTargetPosition v) s) = v
   \<and> effects (step P Polling (SetTargetPosition v) s) =
       effects s @ [Log Debug (TriggeredSetTargetPosition v),
                    AssignTargetPosition v,
                    Log Info (PostingUnitAction (shutterId s) v),
                    HttpPostAction (shutterId s) v,
                    AssignIntervalDurationSum 0]
                 @ (case updateTargetInterval s of
                      Some t \<Rightarrow> [ClearInterval t, AssignUpdateTargetInterval None]
                    | None \<Rightarrow> [])
                 @ [SetInterval (nextHandle s) (pollingInterval P),
                    AssignUpdateTargetInterval (Some (nextHandle s)),
                    Callback None]
   \<and> timers (step P Polling (SetTargetPosition v) s) =
       nextHandle s # (case updateTargetInterval s of
                         Some t \<Rightarrow> removeAll t (timers s)
                       | None \<Rightarrow> timers s)
   \<and> updateTargetInterval (step P Polling (SetTargetPosition v) s) = Some (nextHandle s)
   \<and> pending (step P Polling (SetTargetPosition v) s) = pending s @ [PostAction]
   \<and> step P Polling (HubReply (length (pending s)) (Rejected e))
        (step P Polling (SetTargetPosition v) s) =
       (step P Polling (SetTargetPosition v) s)
         \<lparr>pending := pending s,
          effects := effects (step P Polling (SetTargetPosition v) s) @ [UnhandledRejection e]\<rparr>
   \<and> targetPosition (step P Deferred (SetTargetPosition v) s) = v
   \<and> effects (step P Deferred (SetTargetPosition v) s) =
       effects s @ [Log Debug (TriggeredSetTargetPosition v),
                    AssignTargetPosition v,
                    Log Info (PostingUnitAction (shutterId s) v),
                    HttpPostAction (shutterId s) v]
                 @ (case updateTargetPositionTimeout s of Some t \<Rightarrow> [ClearTimeout t] | None \<Rightarrow> [])
                 @ [SetTimeout (nextHandle s) 40000,
                    AssignUpdateTargetPositionTimeout (Some (nextHandle s)),
                    Callback None]
   \<and> timers (step P Deferred (SetTargetPosition v) s) =
       nextHandle s # (case updateTargetPositionTimeout s of
                         Some t \<Rightarrow> removeAll t (timers s)
                       | None \<Rightarrow> timers s)
   \<and> updateTargetPositionTimeout (step P Deferred (SetTargetPosition v) s) = Some (nextHandle s)
   \<and> pending (step P Deferred (SetTargetPosition v) s) = pending s @ [PostAction]
   \<and> step P Deferred (HubReply (length (pending s)) (Rejected e))
        (step P Deferred (SetTargetPosition v) s) =
       (step P Deferred (SetTargetPosition v) s)
         \<lparr>pending := pending s,
          effects := effects (step P Deferred (SetTargetPosition v) s) @ [UnhandledRejection e]\<rparr>"
  by (simp add: set_poll_effects set_poll_fields set_defer_effects set_defer_fields settle_rejected)

text \<open>
  C3. In every state reachable from the constructor, under every sequence of handler
  calls, timer firings and hub replies, at most one timer is live (all three revisions).
  A further \<open>setTargetPosition\<close> in such a state leaves exactly one live timer, the new
  one, whose handle differs from the one held before; the polling revision also resets
  the elapsed-time accumulator to 0.
\<close>

theorem one_live_timer:
  "length (timers (run P rv es (constructor rv sid))) \<le> 1
   \<and> timers (step P Polling (SetTargetPosition v) (run P Polling es (constructor Polling sid)))
       = [nextHandle (run P Polling es (constructor Polling sid))]
   \<and> updateTargetInterval
         (step P Polling (SetTargetPosition v) (run P Polling es (constructor Polling sid)))
       = Some (nextHandle (run P Polling es (constructor Polling sid)))
   \<and> updateTargetInterval (run P Polling es (constructor Polling sid))
       \<noteq> Some (nextHandle (run P Polling es (constructor Polling sid)))
   \<and> intervalDurationSum
         (step P Polling (SetTargetPosition v) (run P Polling es (constructor Polling sid))) = 0
   \<and> timers (step P Deferred (SetTargetPosition v) (run P Deferred es (constructor Deferred sid)))
       = [nextHandle (run P Deferred es (constructor Deferred sid))]
   \<and> updateTargetPositionTimeout
         (step P Deferred (SetTargetPosition v) (run P Deferred es (constructor Deferred sid)))
       = Some (nextHandle (run P Deferred es (constructor Deferred sid)))
   \<and> updateTargetPositionTimeout (run P Deferred es (constructor Deferred sid))
       \<noteq> Some (nextHandle (run P Deferred es (constructor Deferred sid)))"
proof -
  have all: "timer_inv rv (run P rv es (constructor rv sid))" for rv
    by (rule run_timer_inv) (rule constructor_timer_inv)
  have len: "length (timers (run P rv es (constructor rv sid))) \<le> 1"
    using all by (rule timer_inv_length)
  have pol: "timer_inv Polling (run P Polling es (constructor Polling sid))"
    by (rule all)
  have def: "timer_inv Deferred (run P Deferred es (constructor Deferred sid))"
    by (rule all)
  have p: "timers (handleTargetPositionSet_poll P v s) = [nextHandle s]
           \<and> updateTargetInterval s \<noteq> Some (nextHandle s)"
    if "timer_inv Polling s" for s
    using that by (auto simp add: timer_inv_def set_poll_fields split: option.splits)
  have d: "timers (handleTargetPositionSet_defer v s) = [nextHandle s]
           \<and> updateTargetPositionTimeout s \<noteq> Some (nextHandle s)"
    if "timer_inv Deferred s" for s
    using that by (auto simp add: timer_inv_def set_defer_fields split: option.splits)
  show ?thesis
    using len p [OF pol] d [OF def] by (simp add: set_poll_fields set_defer_fields)
qed




text \<open>
  C5. In the revisions whose target getter does not resynchronise (the deferred-check
  revision and the first one), \<open>getTargetPosition()\<close> right after
  \<open>setTargetPosition(v)\<close> calls back with exactly \<open>v\<close>, and starts no hub request: its
  only effects are its debug line and the callback, and the pending requests are the same.
\<close>

theorem getTargetPosition_after_set:
  "effects (step P Deferred GetTargetPosition (step P Deferred (SetTargetPosition v) s)) =
     effects (step P Deferred (SetTargetPosition v) s)
       @ [Log Debug TriggeredGetTargetPosition, Callback (Some (Num v))]
   \<and> pending (step P Deferred GetTargetPosition (step P Deferred (SetTargetPosition v) s)) =
       pending (step P Deferred (SetTargetPosition v) s)
   \<and> effects (step P First GetTargetPosition (step P First (SetTargetPosition v) s)) =
       effects (step P First (SetTargetPosition v) s)
         @ [Log Debug TriggeredGetTargetPosition, Callback (Some (Num v))]
   \<and> pending (step P First GetTargetPosition (step P First (SetTargetPosition v) s)) =
       pending (step P First (SetTargetPosition v) s)"
  by (simp add: handleTargetPositionGet_def emit_def Let_def set_defer_fields set_first_fields)

text \<open>
  C6 (as stated, refuted). A scheduled re-authentication whose login request is rejected:
  the failure is neither caught nor logged; after the request the only effect is the
  unhandled rejection.
\<close>

theorem reauthentication_failure_unhandled:
  "apiEffects (reauthenticate (Rejected ''ETIMEDOUT'') \<lparr>sessionCookie = ''sid=1'', apiEffects = []\<rparr>)
     = [Log Info SendingAuthentication, HttpGetLogin, UnhandledRejection ''ETIMEDOUT'']"
  by (simp add: reauthenticate_def authenticate_def authenticate_resume_def)

text \<open>
  C6 (amended). No operation catches the failure of its hub call. Whichever operation
  started a pending hub request (the seed read, a getter's read, a tick's read, the
  deferred check, the command dispatch), when the request is rejected the operation's
  continuation is skipped, the object is unchanged, the program writes no log line, and
  the rejection is left unhandled for the runtime; the same holds for a scheduled
  re-authentication.
\<close>

theorem hub_failure_unhandled:
  "i < length (pending s) \<Longrightarrow>
   step P rv (HubReply i (Rejected e)) s =
     s\<lparr>pending := take i (pending s) @ drop (Suc i) (pending s),
       effects := effects s @ [UnhandledRejection e]\<rparr>
   \<and> reauthenticate (Rejected e) a =
       a\<lparr>apiEffects := apiEffects a
            @ [Log Info SendingAuthentication, HttpGetLogin, UnhandledRejection e]\<rparr>"
  by (simp add: settle_rejected reauthenticate_rejected)

text \<open>Witness for C6: the seed read of a fresh shutter is rejected.\<close>

theorem hub_failure_unhandled_witness:
  "0 < length (pending (constructor Deferred 5))
   \<and> effects (step (IFeelPlatform None) Deferred (HubReply 0 (Rejected ''EHOSTUNREACH''))
                (constructor Deferred 5))
       = [Log Info (GettingUnitData 5), HttpGetUnit 5, UnhandledRejection ''EHOSTUNREACH'']"
proof -
  have a: "0 < length (pending (constructor Deferred 5))"
    by (simp add: constructor_def blank_def hub_defs)
  have b: "effects (constructor Deferred 5) = [Log Info (GettingUnitData 5), HttpGetUnit 5]"
    by (simp add: constructor_def blank_def hub_defs)
  from hub_failure_unhandled [OF a, of "IFeelPlatform None" Deferred "''EHOSTUNREACH''"] a b
  show ?thesis by simp
qed

text \<open>
  C7 (as stated, refuted). The tracker stores what it is given: after
  \<open>setTargetPosition(150)\<close> on a fresh shutter the target is 150.
\<close>

theorem target_out_of_range:
  "targetPosition (step (IFeelPlatform None) Polling (SetTargetPosition 150) (constructor Polling 5))
     = 150
   \<and> \<not> in_range (step (IFeelPlatform None) Polling (SetTargetPosition 150) (constructor Polling 5))"
  by (simp add: in_range_def set_poll_fields)

text \<open>
  C7 (amended). If every value passed to \<open>setTargetPosition\<close> and every position the hub
  reports lies between 0 and 100, then in every reachable state of every revision both
  \<open>currentPosition\<close> and \<open>targetPosition\<close> lie between 0 and 100. The tracker itself
  neither checks nor clamps a value.
\<close>

theorem positions_in_range:
  "list_all percentage_event es \<Longrightarrow> in_range (run P rv es (constructor rv sid))"
  by (rule run_in_range) (rule constructor_in_range)

text \<open>Witness for C7: a target of 70, then the seed read answers 30.\<close>

theorem positions_in_range_witness:
  "list_all percentage_event
     [SetTargetPosition 70, HubReply 0 (Resolved \<lparr>status = 200, currStatus = 30\<rparr>)]
   \<and> in_range (run (IFeelPlatform None) Polling
        [SetTargetPosition 70, HubReply 0 (Resolved \<lparr>status = 200, currStatus = 30\<rparr>)]
        (constructor Polling 5))"
proof -
  have a: "list_all percentage_event
     [SetTargetPosition 70, HubReply 0 (Resolved \<lparr>status = 200, currStatus = 30\<rparr>)]"
    by simp
  from positions_in_range [where P = "IFeelPlatform None" and rv = Polling and sid = 5, OF a] a
  show ?thesis by simp
qed

text \<open>
  C8. Polling revision: the accumulator grows only in the continuation of a successful
  read. In a session started by \<open>setTargetPosition(v)\<close> in which every tick's read is
  rejected, after any number of ticks the accumulated time is still 0, the interval timer
  is still held and live, the cap-reached line has not been logged, and every tick has
  sent one more hub request.
\<close>

theorem failed_reads_never_reach_cap:
  "intervalDurationSum (polls P (map Rejected es) (step P Polling (SetTargetPosition v) s)) = 0
   \<and> updateTargetInterval (polls P (map Rejected es) (step P Polling (SetTargetPosition v) s))
       = Some (nextHandle s)
   \<and> timers (polls P (map Rejected es) (step P Polling (SetTargetPosition v) s))
       = timers (step P Polling (SetTargetPosition v) s)
   \<and> nextHandle s \<in> set (timers (polls P (map Rejected es) (step P Polling (SetTargetPosition v) s)))
   \<and> capLogs (polls P (map Rejected es) (step P Polling (SetTargetPosition v) s)) = capLogs s
   \<and> length (filter is_HubRequest
               (effects (polls P (map Rejected es) (step P Polling (SetTargetPosition v) s))))
       = length (filter is_HubRequest (effects (step P Polling (SetTargetPosition v) s)))
         + length es"
proof -
  let ?s0 = "step P Polling (SetTargetPosition v) s"
  have h: "updateTargetInterval ?s0 = Some (nextHandle s)"
    and l: "nextHandle s \<in> set (timers ?s0)"
    and z: "intervalDurationSum ?s0 = 0"
    by (simp_all add: set_poll_fields)
  have c: "capLogs ?s0 = capLogs s"
    by (simp add: capLogs_def set_poll_effects split: option.splits)
  from polls_rejected [OF h l, of P es] z c l show ?thesis
    by simp
qed

text \<open>
  C9. For \<open>getCurrentPosition\<close> and \<open>getMotionState\<close> in every revision, and for the
  resynchronising \<open>getTargetPosition\<close> of the polling revision: when the hub read the
  getter started is rejected, no callback is invoked, and the request is no longer
  pending, so nothing is left that could invoke it later.
\<close>

theorem rejected_read_no_callback:
  "filter is_Callback
     (effects (step P rv (HubReply (length (pending s)) (Rejected e)) (step P rv GetCurrentPosition s)))
     = filter is_Callback (effects s)
   \<and> pending (step P rv (HubReply (length (pending s)) (Rejected e)) (step P rv GetCurrentPosition s))
     = pending s
   \<and> filter is_Callback
     (effects (step P rv (HubReply (length (pending s)) (Rejected e)) (step P rv GetPositionState s)))
     = filter is_Callback (effects s)
   \<and> pending (step P rv (HubReply (length (pending s)) (Rejected e)) (step P rv GetPositionState s))
     = pending s
   \<and> filter is_Callback
     (effects (step P Polling (HubReply (length (pending s)) (Rejected e))
                 (step P Polling GetTargetPosition s)))
     = filter is_Callback (effects s)
   \<and> pending (step P Polling (HubReply (length (pending s)) (Rejected e))
                 (step P Polling GetTargetPosition s))
     = pending s"
  by (cases rv) (simp_all add: handler_defs hub_defs settle_def resume_def)

text \<open>
  C10 (as stated, refuted). A \<open>getTargetPosition\<close> call that arrives before the seed read
  has completed is not always answered with 0, and the motion state is not always Stopped
  then. Polling revision, the hub reports 30: the getter is answered with 30, both when
  the seed read completes before the getter's own read and when the getter's read is the
  first to complete (the seed read is then still pending at the callback). Deferred-check
  revision: after \<open>setTargetPosition(70)\<close> the getter is answered with 70 while the seed
  read is pending; and once the read of a \<open>getCurrentPosition\<close> call has been answered
  with 30, the seed read still pending, the derived motion state is Decreasing.
\<close>

theorem getter_before_seed_not_zero:
  "filter is_Callback
     (effects (run (IFeelPlatform None) Polling
        [GetTargetPosition,
         HubReply 0 (Resolved \<lparr>status = 200, currStatus = 30\<rparr>),
         HubReply 0 (Resolved \<lparr>status = 200, currStatus = 30\<rparr>)]
        (constructor Polling 5)))
   = [Callback (Some (Num 30))]
   \<and> filter is_Callback
     (effects (run (IFeelPlatform None) Polling
        [GetTargetPosition,
         HubReply 1 (Resolved \<lparr>status = 200, currStatus = 30\<rparr>)]
        (constructor Polling 5)))
   = [Callback (Some (Num 30))]
   \<and> pending (run (IFeelPlatform None) Polling
        [GetTargetPosition,
         HubReply 1 (Resolved \<lparr>status = 200, currStatus = 30\<rparr>)]
        (constructor Polling 5))
   = [Seed]
   \<and> filter is_Callback
     (effects (run (IFeelPlatform None) Deferred
        [SetTargetPosition 70, GetTargetPosition] (constructor Deferred 5)))
   = [Callback None, Callback (Some (Num 70))]
   \<and> pending (run (IFeelPlatform None) Deferred
        [SetTargetPosition 70, GetTargetPosition] (constructor Deferred 5))
   = [Seed, PostAction]
   \<and> calculateCurrentPositionState
       (run (IFeelPlatform None) Deferred
          [GetCurrentPosition, HubReply 1 (Resolved \<lparr>status = 200, currStatus = 30\<rparr>)]
          (constructor Deferred 5))
   = DECREASING
   \<and> pending (run (IFeelPlatform None) Deferred
          [GetCurrentPosition, HubReply 1 (Resolved \<lparr>status = 200, currStatus = 30\<rparr>)]
          (constructor Deferred 5))
   = [Seed]"
  by (simp add: constructor_def blank_def handler_defs hub_defs timer_defs settle_def resume_def
        then_defs Let_def calculateCurrentPositionState_def)

text \<open>
  C10 (amended). The constructor leaves both positions 0, so the derived motion state is
  Stopped, and, in the polling and the deferred-check revision, the seed read pending.
  Until \<open>setTargetPosition\<close> has been called or the seed read has settled, whatever else
  happens: in the deferred-check revision the target stays 0 and any \<open>getTargetPosition\<close>
  call is answered with 0, whatever the shutter's position; and in both revisions, when
  the seed read is then answered, both positions take its reading. As long as
  \<open>setTargetPosition\<close> has not been called and no hub read has been answered, the derived
  motion state is Stopped (every revision). In the polling revision a
  \<open>getTargetPosition\<close> call is not answered when it arrives; as long as
  \<open>setTargetPosition\<close> has not been called, it is answered when its own hub read is, with
  that reading.
\<close>

theorem state_before_seed:
  "targetPosition (constructor rv sid) = 0
   \<and> currentPosition (constructor rv sid) = 0
   \<and> calculateCurrentPositionState (constructor rv sid) = STOPPED
   \<and> pending (constructor Polling sid) = [Seed]
   \<and> pending (constructor Deferred sid) = [Seed]
   \<and> (list_all before_seed es \<longrightarrow>
        targetPosition (run P Deferred es (constructor Deferred sid)) = 0
      \<and> effects (step P Deferred GetTargetPosition (run P Deferred es (constructor Deferred sid)))
          = effects (run P Deferred es (constructor Deferred sid))
            @ [Log Debug TriggeredGetTargetPosition, Callback (Some (Num 0))]
      \<and> targetPosition (step P Deferred (HubReply 0 (Resolved r))
                          (run P Deferred es (constructor Deferred sid))) = currStatus r
      \<and> currentPosition (step P Deferred (HubReply 0 (Resolved r))
                           (run P Deferred es (constructor Deferred sid))) = currStatus r
      \<and> targetPosition (step P Polling (HubReply 0 (Resolved r))
                          (run P Polling es (constructor Polling sid))) = currStatus r
      \<and> currentPosition (step P Polling (HubReply 0 (Resolved r))
                           (run P Polling es (constructor Polling sid))) = currStatus r)
   \<and> (list_all nothing_answered es \<longrightarrow>
        calculateCurrentPositionState (run P rv es (constructor rv sid)) = STOPPED)
   \<and> filter is_Callback (effects (step P Polling GetTargetPosition s))
       = filter is_Callback (effects s)
   \<and> (list_all no_set es
        \<and> i < length (pending (run P Polling es (constructor Polling sid)))
        \<and> pending (run P Polling es (constructor Polling sid)) ! i = TargetGet_resync \<longrightarrow>
        filter is_Callback
          (effects (step P Polling (HubReply i (Resolved r))
                      (run P Polling es (constructor Polling sid))))
        = filter is_Callback (effects (run P Polling es (constructor Polling sid)))
          @ [Callback (Some (Num (currStatus r)))])"
proof -
  have c: "targetPosition (constructor rv sid) = 0 \<and> currentPosition (constructor rv sid) = 0"
    using untouched_constructor [of rv sid] by (simp add: untouched_def)
  then have c0: "calculateCurrentPositionState (constructor rv sid) = STOPPED"
    by (simp add: calculateCurrentPositionState_def)
  have pd: "pending (constructor Polling sid) = [Seed]"
    "pending (constructor Deferred sid) = [Seed]"
    by (simp_all add: constructor_def blank_def hub_defs)
  have win: "targetPosition (run P Deferred es (constructor Deferred sid)) = 0
      \<and> effects (step P Deferred GetTargetPosition (run P Deferred es (constructor Deferred sid)))
          = effects (run P Deferred es (constructor Deferred sid))
            @ [Log Debug TriggeredGetTargetPosition, Callback (Some (Num 0))]
      \<and> targetPosition (step P Deferred (HubReply 0 (Resolved r))
                          (run P Deferred es (constructor Deferred sid))) = currStatus r
      \<and> currentPosition (step P Deferred (HubReply 0 (Resolved r))
                           (run P Deferred es (constructor Deferred sid))) = currStatus r
      \<and> targetPosition (step P Polling (HubReply 0 (Resolved r))
                          (run P Polling es (constructor Polling sid))) = currStatus r
      \<and> currentPosition (step P Polling (HubReply 0 (Resolved r))
                           (run P Polling es (constructor Polling sid))) = currStatus r"
    if w: "list_all before_seed es"
  proof -
    have d: "window_inv (run P Deferred es (constructor Deferred sid))"
      using window_inv_constructor w by (rule window_inv_run)
    then have t0: "targetPosition (run P Deferred es (constructor Deferred sid)) = 0"
      by (simp add: window_inv_def)
    have sd: "seed_pending (run P Deferred es (constructor Deferred sid))"
      using d by (simp add: window_inv_def seed_pending_def split: list.splits)
    have "seed_pending (constructor Polling sid)"
      by (simp add: seed_pending_def pd)
    then have sp: "seed_pending (run P Polling es (constructor Polling sid))"
      using w by (rule seed_pending_run)
    show ?thesis
      using seed_answered [OF sd, of P Deferred r] seed_answered [OF sp, of P Polling r]
      by (simp add: handleTargetPositionGet_def emit_def Let_def t0)
  qed
  have st: "calculateCurrentPositionState (run P rv es (constructor rv sid)) = STOPPED"
    if "list_all nothing_answered es"
    using untouched_run [OF untouched_constructor [of rv sid] that, where P = P and rv = rv]
    by (simp add: untouched_def calculateCurrentPositionState_def)
  have g0: "filter is_Callback (effects (step P Polling GetTargetPosition s))
       = filter is_Callback (effects s)"
    by (simp add: handleTargetPositionGet_poll_def hub_defs)
  have g1: "filter is_Callback
          (effects (step P Polling (HubReply i (Resolved r))
                      (run P Polling es (constructor Polling sid))))
        = filter is_Callback (effects (run P Polling es (constructor Polling sid)))
          @ [Callback (Some (Num (currStatus r)))]"
    if "list_all no_set es"
      and "i < length (pending (run P Polling es (constructor Polling sid)))"
      and "pending (run P Polling es (constructor Polling sid)) ! i = TargetGet_resync"
  proof -
    have "updateTargetInterval (constructor Polling sid) = None"
      by (simp add: constructor_def blank_def hub_defs)
    then have "updateTargetInterval (run P Polling es (constructor Polling sid)) = None"
      using that(1) by (rule no_interval_run)
    then show ?thesis using that(2,3) by (rule target_read_answered)
  qed
  show ?thesis
    using c c0 pd win st g0 g1 by blast
qed

text \<open>Witness for C10: one \<open>getTargetPosition\<close> call after the construction, and, in the
  polling revision, its read answered with 30.\<close>

theorem state_before_seed_witness:
  "list_all before_seed [GetTargetPosition]
   \<and> list_all nothing_answered [GetTargetPosition]
   \<and> list_all no_set [GetTargetPosition]
   \<and> 1 < length (pending (run (IFeelPlatform None) Polling [GetTargetPosition]
                           (constructor Polling 5)))
   \<and> pending (run (IFeelPlatform None) Polling [GetTargetPosition] (constructor Polling 5)) ! 1
       = TargetGet_resync
   \<and> targetPosition (run (IFeelPlatform None) Deferred [GetTargetPosition]
                        (constructor Deferred 5)) = 0
   \<and> calculateCurrentPositionState
        (run (IFeelPlatform None) Deferred [GetTargetPosition] (constructor Deferred 5)) = STOPPED
   \<and> filter is_Callback
        (effects (step (IFeelPlatform None) Polling
                    (HubReply 1 (Resolved \<lparr>status = 200, currStatus = 30\<rparr>))
                    (run (IFeelPlatform None) Polling [GetTargetPosition]
                       (constructor Polling 5))))
       = [Callback (Some (Num 30))]"
proof -
  have a: "list_all before_seed [GetTargetPosition]"
    and b: "list_all nothing_answered [GetTargetPosition]"
    and c: "list_all no_set [GetTargetPosition]"
    by simp_all
  have p: "pending (run (IFeelPlatform None) Polling [GetTargetPosition] (constructor Polling 5))
             = [Seed, TargetGet_resync]"
    by (simp add: constructor_def blank_def handleTargetPositionGet_poll_def hub_defs)
  have e: "filter is_Callback
             (effects (run (IFeelPlatform None) Polling [GetTargetPosition] (constructor Polling 5)))
             = []"
    by (simp add: constructor_def blank_def handleTargetPositionGet_poll_def hub_defs)
  from state_before_seed [where es = "[GetTargetPosition]" and P = "IFeelPlatform None"
      and rv = Deferred and sid = 5 and i = 1
      and r = "\<lparr>status = 200, currStatus = 30\<rparr>"] a b c p e
  show ?thesis by simp
qed

end
